theory Spec2Isabelle
  imports Complex_Main
begin

section \<open>Python and numpy values\<close>

text \<open>
  The sources are Python over numpy. Python integers are \<open>int\<close> (or \<open>nat\<close> for array
  shapes and loop counts that are lengths of lists), numpy floating-point numbers are
  idealised as \<open>real\<close>, one-dimensional arrays are lists and two-dimensional arrays are
  lists of rows. Every exception the modelled lines can raise is a value of \<open>error\<close>.
\<close>

datatype error =
    ValueError
  | TypeError
  | AttributeError
  | IndexError
  | ZeroDivisionError
  | AssertionError
  | PlainException
    \<comment> \<open>\<open>raise Exception\<close> without a message (aoAlg.py, line 337)\<close>
  | StripesTooFine
    \<comment> \<open>\<open>Exception("Interferometer stripes are too fine. Please make them coarser")\<close>\<close>
  | NotEnoughValues int
    \<comment> \<open>\<open>Exception("Not enough Zernike mode values to calculate slope for actuator %i. ...")\<close>,
        with the number that is formatted into the message\<close>
  | NoRoi
    \<comment> \<open>\<open>Exception("No region of interest selected. Please select a region of interest")\<close>\<close>
  | DimensionMismatch
    \<comment> \<open>\<open>Exception("Control Matrix dimension 0 axis and number of actuators do not match.")\<close>\<close>

text \<open>
  The files run under either major version of Python (they carry no version marker);
  where the two differ on a modelled line the version is a parameter.
\<close>

datatype pyver = Py2 | Py3

text \<open>A two-dimensional array with its shape: \<open>np.shape(a)[1]\<close> exists also when the
  array has no row.\<close>

record matrix =
  ncols :: nat
  rows :: "real list list"

text \<open>\<open>a[start:stop]\<close> on an axis of length \<open>n\<close>: negative bounds count from the end,
  and both bounds are clipped to the axis.\<close>

definition slice_bounds :: "nat \<Rightarrow> int \<Rightarrow> int \<Rightarrow> nat \<times> nat" where
  "slice_bounds n start stop =
     (let norm = (\<lambda>k. if k < 0 then max 0 (k + int n) else min k (int n));
          lo = nat (norm start);
          hi = nat (norm stop)
      in (lo, max lo hi))"

definition slice_len :: "nat \<Rightarrow> int \<Rightarrow> int \<Rightarrow> nat" where
  "slice_len n start stop = (case slice_bounds n start stop of (lo, hi) \<Rightarrow> hi - lo)"

definition py_slice :: "'a list \<Rightarrow> int \<Rightarrow> int \<Rightarrow> 'a list" where
  "py_slice xs start stop =
     (case slice_bounds (length xs) start stop of (lo, hi) \<Rightarrow> take (hi - lo) (drop lo xs))"

text \<open>\<open>a[i]\<close> with an integer: a negative index counts from the end, and an index outside
  the axis raises IndexError.\<close>

definition py_index :: "nat \<Rightarrow> int \<Rightarrow> error + nat" where
  "py_index n i =
     (if 0 \<le> i \<and> i < int n then Inr (nat i)
      else if - int n \<le> i \<and> i < 0 then Inr (nat (i + int n))
      else Inl IndexError)"

text \<open>\<open>np.pad(v, (before, after), 'constant')\<close>: a negative width is rejected with
  ValueError ("index can't contain negative values").\<close>

definition np_pad :: "real list \<Rightarrow> int \<times> int \<Rightarrow> error + real list" where
  "np_pad v w =
     (case w of (before, after) \<Rightarrow>
        if before < 0 \<or> after < 0 then Inl ValueError
        else Inr (replicate (nat before) 0 @ v @ replicate (nat after) 0))"

text \<open>\<open>np.dot(C, v)\<close> of a two-dimensional \<open>C\<close> and a one-dimensional \<open>v\<close>: the shapes
  must agree, otherwise ValueError ("shapes not aligned").\<close>

definition np_dot :: "matrix \<Rightarrow> real list \<Rightarrow> error + real list" where
  "np_dot C v =
     (if ncols C = length v
      then Inr (map (\<lambda>r. sum_list (map2 (*) r v)) (rows C))
      else Inl ValueError)"

text \<open>\<open>np.linspace(start, stop, num)\<close> with the end point included.\<close>

definition linspace_pts :: "real \<Rightarrow> real \<Rightarrow> nat \<Rightarrow> real list" where
  "linspace_pts start stop n =
     map (\<lambda>i. if 0 < i \<and> i = n - 1 then stop
               else start + real i * ((stop - start) / real (n - 1))) [0..<n]"

definition linspace :: "real \<Rightarrow> real \<Rightarrow> int \<Rightarrow> error + real list" where
  "linspace start stop num =
     (if num < 0 then Inl ValueError else Inr (linspace_pts start stop (nat num)))"

text \<open>A \<open>for\<close> loop whose body can raise: the body is run on the items in order and the
  first exception ends the loop.\<close>

fun foldM :: "('a \<Rightarrow> 's \<Rightarrow> error + 's) \<Rightarrow> 'a list \<Rightarrow> 's \<Rightarrow> error + 's" where
  "foldM body [] s = Inr s"
| "foldM body (x # xs) s = (case body x s of Inl e \<Rightarrow> Inl e | Inr s' \<Rightarrow> foldM body xs s')"

section \<open>The algorithm object (aoAlg.py)\<close>

text \<open>The fields of \<open>AdaptiveOpticsFunctions\<close>; \<open>None\<close> is the unset state.\<close>

record ctx =
  mask :: "bool list list option"
  fft_filter :: "real list list option"
  controlMatrix :: "matrix option"
  OTF_ring_mask :: "int list list option"

subsection \<open>ac_pos_from_zernike\<close>

text \<open>
  Lines 323 to 339. In the first branch the pad width is \<open>len(v) - ncols\<close>, which is
  negative there, so \<open>np.pad\<close> raises; its result would not be bound to a name either.
  \<open>np.shape(None)\<close> is the empty tuple, so an unset control matrix raises IndexError.
\<close>

definition ac_pos_from_zernike :: "ctx \<Rightarrow> real list \<Rightarrow> int \<Rightarrow> error + real list" where
  "ac_pos_from_zernike self applied_z_modes nAct =
     (case controlMatrix self of
        None \<Rightarrow> Inl IndexError
      | Some C \<Rightarrow>
          let n = int (length applied_z_modes); m = int (ncols C);
              checked = (\<lambda>v. case np_dot C v of
                                Inl e \<Rightarrow> Inl e
                              | Inr actuator_pos \<Rightarrow>
                                  if int (length actuator_pos) = nAct then Inr actuator_pos
                                  else Inl PlainException)
          in if n < m then
               (case np_pad applied_z_modes (0, n - m) of
                  Inl e \<Rightarrow> Inl e
                | Inr _ \<Rightarrow> checked applied_z_modes)
             else if n > m then checked (take (ncols C) applied_z_modes)
             else checked applied_z_modes)"

text \<open>The command mapper as the specification words it: conform the vector to the mode
  dimension, then multiply.\<close>

definition conform_spec :: "nat \<Rightarrow> real list \<Rightarrow> real list" where
  "conform_spec m v = (if m < length v then take m v else v @ replicate (m - length v) 0)"

definition command_mapper_spec :: "matrix \<Rightarrow> real list \<Rightarrow> real list" where
  "command_mapper_spec C v = map (\<lambda>r. sum_list (map2 (*) r (conform_spec (ncols C) v))) (rows C)"

subsection \<open>make_mask and make_ring_mask\<close>

text \<open>
  Both masks compare the same grid of distances with a radius:
  \<open>np.sqrt((np.arange(-radius, radius)**2).reshape((2*radius, 1)) + np.arange(-radius, radius)**2)\<close>,
  whose entry \<open>(i, j)\<close> is the distance of \<open>(i - radius, j - radius)\<close> from the origin.
  The radius is a number of pixels, a \<open>nat\<close>.
\<close>

definition arange :: "int \<Rightarrow> int \<Rightarrow> int list" where
  "arange start stop = map (\<lambda>k. start + int k) [0..<nat (stop - start)]"

definition dist_grid :: "nat \<Rightarrow> real list list" where
  "dist_grid radius =
     map (\<lambda>a. map (\<lambda>b. sqrt (real_of_int (a\<^sup>2 + b\<^sup>2))) (arange (- int radius) (int radius)))
       (arange (- int radius) (int radius))"

text \<open>Lines 54 to 57: the mask is stored in the object and returned.\<close>

definition make_mask :: "ctx \<Rightarrow> nat \<Rightarrow> ctx \<times> bool list list" where
  "make_mask self radius =
     (let m = map (map (\<lambda>d. d < real radius)) (dist_grid radius)
      in (self\<lparr>mask := Some m\<rparr>, m))"

text \<open>Lines 341 to 351. \<open>shp\<close> is the argument \<open>size\<close>, the shape of the image; booleans enter the arithmetic
  as 0 and 1, so the ring mask is an integer array.\<close>

definition make_ring_mask :: "nat \<times> nat \<Rightarrow> real \<Rightarrow> real \<Rightarrow> int list list" where
  "make_ring_mask shp inner_rad outer_rad =
     (let radius = fst shp div 2;
          outer_mask = map (map (\<lambda>d. d < outer_rad)) (dist_grid radius);
          inner_mask_neg = map (map (\<lambda>d. d < inner_rad)) (dist_grid radius);
          inner_mask = map (map (\<lambda>b. ((if b then 1 else 0) - 1) * - 1)) inner_mask_neg;
          ring_mask = map2 (map2 (\<lambda>out inn. (if out then 1 else 0) * inn)) outer_mask inner_mask
      in ring_mask)"

subsection \<open>make_fft_filter\<close>

text \<open>
  Lines 112 to 183. The image is a square array of side \<open>n\<close>, as the device crops it.
  The windowed Fourier transform and the search for its largest bin are floating-point
  library code, from which the model takes:
  \<^item> \<open>argmax1\<close>, the flat index \<open>np.argmax(fftarray)\<close> once the centre is blanked (line 135);
  \<^item> \<open>argmax2\<close>, the flat index of the largest bin of the re-shifted array (line 143);
  \<^item> \<open>com (m0, m1)\<close>, the rounded centre of mass \<open>(int(CoM[0,0]), int(CoM[0,1]))\<close> of the
    thresholded and weighted window cut at \<open>maxpoint = [m0, m1]\<close> (lines 161 to 165), or
    \<open>None\<close> when the centre of mass is not a number, where \<open>int\<close> raises ValueError.
\<close>

text \<open>Lines 136 to 145: the candidate peak \<open>[column, row]\<close> and \<open>fft_shift_later\<close>.\<close>

definition test_point :: "nat \<Rightarrow> nat \<Rightarrow> nat \<Rightarrow> (int \<times> int) \<times> bool" where
  "test_point n argmax1 argmax2 =
     (let tp = (int (argmax1 mod n), int (argmax1 div n));
          min_dist_to_edge =
            min (min (fst tp) (snd tp)) (min \<bar>fst tp - int n\<bar> \<bar>snd tp - int n\<bar>)
      in if min_dist_to_edge - min_dist_to_edge mod 2 < int (5 * n div 16)
         then ((int (argmax2 mod n), int (argmax2 div n)), True)
         else (tp, False))"

text \<open>Line 158: the slice \<open>fftarray[m1-25:m1+25, m0-25:m0+25]\<close> is clipped to the array, and
  the assignment to the 50 by 50 \<open>window\<close> raises ValueError unless each side of the
  slice is 50, or 1 (which numpy broadcasts).\<close>

definition window_assignable :: "nat \<Rightarrow> int \<times> int \<Rightarrow> bool" where
  "window_assignable n maxpoint =
     (let a = slice_len n (snd maxpoint - 25) (snd maxpoint + 25);
          b = slice_len n (fst maxpoint - 25) (fst maxpoint + 25)
      in (a = 50 \<or> a = 1) \<and> (b = 50 \<or> b = 1))"

text \<open>Line 160: \<open>raise Exception("Interferometer stripes are too fine. ...").with_traceback()\<close>.
  The method is called without its argument, so evaluating the operand of \<open>raise\<close>
  raises TypeError; Python 2 exceptions have no such method, which is AttributeError.
  The exception with the message is never raised.\<close>

definition raise_stripes_too_fine :: "pyver \<Rightarrow> error" where
  "raise_stripes_too_fine py = (case py of Py3 \<Rightarrow> TypeError | Py2 \<Rightarrow> AttributeError)"

text \<open>Lines 157 to 167, the body of the refinement loop, on \<open>maxpoint\<close>.\<close>

definition refine_step ::
  "pyver \<Rightarrow> nat \<Rightarrow> (int \<times> int \<Rightarrow> (int \<times> int) option) \<Rightarrow> nat \<Rightarrow> int \<times> int \<Rightarrow> error + int \<times> int" where
  "refine_step py n com ii maxpoint =
     (if \<not> window_assignable n maxpoint then Inl (raise_stripes_too_fine py)
      else case com maxpoint of
             None \<Rightarrow> Inl ValueError
           | Some (c0, c1) \<Rightarrow> Inr (fst maxpoint - 25 + c1, snd maxpoint - 25 + c0))"

text \<open>Line 172: \<open>np.sin(np.linspace(0, np.pi, mask_di))**2\<close>.\<close>

definition fourier_profile :: "nat \<Rightarrow> real list" where
  "fourier_profile mask_di = map (\<lambda>t. (sin t)\<^sup>2) (linspace_pts 0 pi mask_di)"

text \<open>Lines 169 to 179: the array of zeros with \<open>np.outer(x, x)\<close> assigned to the slice
  around the peak. The assignment raises ValueError unless the slice has the shape of the
  mask (or the mask has one entry, which numpy broadcasts).\<close>

definition place_filter :: "nat \<Rightarrow> real list \<Rightarrow> int \<times> int \<Rightarrow> error + real list list" where
  "place_filter n x maxpoint =
     (let mask_di = length x;
          y_min = snd maxpoint - int (mask_di div 2);
          y_max = snd maxpoint + int ((mask_di + 1) div 2);
          x_min = fst maxpoint - int (mask_di div 2);
          x_max = fst maxpoint + int ((mask_di + 1) div 2);
          ys = slice_bounds n y_min y_max;
          xs = slice_bounds n x_min x_max
      in if (mask_di = snd ys - fst ys \<or> mask_di = 1) \<and> (mask_di = snd xs - fst xs \<or> mask_di = 1)
         then Inr (map (\<lambda>i. map (\<lambda>j.
                      if fst ys \<le> i \<and> i < snd ys \<and> fst xs \<le> j \<and> j < snd xs
                      then x ! (if mask_di = 1 then 0 else i - fst ys)
                           * x ! (if mask_di = 1 then 0 else j - fst xs)
                      else 0) [0..<n]) [0..<n])
         else Inl ValueError)"

text \<open>\<open>np.fft.ifftshift\<close> of a two-dimensional array rolls both axes back by half their
  length.\<close>

definition ifftshift2 :: "real list list \<Rightarrow> real list list" where
  "ifftshift2 a = rotate (length a div 2) (map (\<lambda>row. rotate (length row div 2) row) a)"

text \<open>The whole function. The field is assigned only after the refinement loop (line
  169), and again when the finished filter is shifted back (line 181). An image without
  pixels makes the transform raise ValueError.\<close>

definition make_fft_filter ::
  "pyver \<Rightarrow> ctx \<Rightarrow> nat \<Rightarrow> nat \<Rightarrow> nat \<Rightarrow> (int \<times> int \<Rightarrow> (int \<times> int) option)
     \<Rightarrow> ctx \<times> (error + real list list)" where
  "make_fft_filter py self n argmax1 argmax2 com =
     (if n = 0 then (self, Inl ValueError)
      else let fft_shift_later = snd (test_point n argmax1 argmax2)
           in case foldM (refine_step py n com) [0..<10] (fst (test_point n argmax1 argmax2)) of
                Inl e \<Rightarrow> (self, Inl e)
              | Inr maxpoint \<Rightarrow>
                  let self1 = self\<lparr>fft_filter := Some (replicate n (replicate n 0))\<rparr>
                  in case place_filter n (fourier_profile (5 * n div 16)) maxpoint of
                       Inl e \<Rightarrow> (self1, Inl e)
                     | Inr placed \<Rightarrow>
                         let result = (if fft_shift_later then ifftshift2 placed else placed)
                         in (self1\<lparr>fft_filter := Some result\<rparr>, Inr result))"

subsection \<open>measure_fourier_metric\<close>

text \<open>Lines 354 to 358: the radius of the diffraction cutoff in pixels of the spectrum.
  The optical parameters are Python floats, so a division by zero raises;
  \<open>np.shape(image)[0] / 2\<close> is an integer division under Python 2.\<close>

definition OTF_outer_rad :: "pyver \<Rightarrow> nat \<Rightarrow> real \<Rightarrow> real \<Rightarrow> real \<Rightarrow> error + real" where
  "OTF_outer_rad py side wavelength NA pixel_size =
     (if 2 * NA = 0 then Inl ZeroDivisionError
      else let ray_crit_dist = (1.22 * wavelength) / (2 * NA)
           in if ray_crit_dist = 0 then Inl ZeroDivisionError
              else if 2 * pixel_size = 0 then Inl ZeroDivisionError
              else let ray_crit_freq = 1 / ray_crit_dist;
                       max_freq = 1 / (2 * pixel_size);
                       freq_ratio = ray_crit_freq / max_freq
                   in Inr (freq_ratio * (case py of Py2 \<Rightarrow> real (side div 2)
                                                    | Py3 \<Rightarrow> real side / 2)))"

text \<open>
  Lines 368 to 375, the loop that fills \<open>RMS_metrics\<close>. The windowed Fourier transform of
  the image is floating-point library code: \<open>ring_rms m\<close> stands for
  \<open>np.sqrt(np.mean(fftarray_sq[m != 0]))\<close>, the RMS of the power spectrum of the image
  over the pixels of the mask \<open>m\<close>. The image is square with the given side; the boolean
  index raises IndexError when the mask, of side \<open>2 * (side div 2)\<close>, has another shape.
\<close>

definition RMS_metrics :: "(int list list \<Rightarrow> real) \<Rightarrow> nat \<Rightarrow> int \<Rightarrow> real \<Rightarrow> error + real list" where
  "RMS_metrics ring_rms side num_segs outer =
     (case linspace (0.1 * outer) outer (num_segs + 1) of
        Inl e \<Rightarrow> Inl e
      | Inr radii \<Rightarrow>
          let iis = [0..<nat (num_segs - 1)]
          in if iis \<noteq> [] \<and> 2 * (side div 2) \<noteq> side then Inl IndexError
             else Inr (map (\<lambda>ii. ring_rms (make_ring_mask (side, side) (radii ! ii) (radii ! (ii + 1))))
                         iis))"

text \<open>Lines 353 to 381; \<open>linregress\<close> stands for \<open>scipy.stats.linregress\<close>.\<close>

definition measure_fourier_metric ::
  "pyver \<Rightarrow> (int list list \<Rightarrow> real) \<Rightarrow>
   (real list \<Rightarrow> real list \<Rightarrow> error + real \<times> real \<times> real \<times> real \<times> real) \<Rightarrow>
   nat \<Rightarrow> int \<Rightarrow> real \<Rightarrow> real \<Rightarrow> real \<Rightarrow> error + real list" where
  "measure_fourier_metric py ring_rms linregress side num_segs wavelength NA pixel_size =
     (case OTF_outer_rad py side wavelength NA pixel_size of
        Inl e \<Rightarrow> Inl e
      | Inr outer \<Rightarrow>
          (case RMS_metrics ring_rms side num_segs outer of
             Inl e \<Rightarrow> Inl e
           | Inr ms \<Rightarrow>
               let no_RMS_metrics = map real [0..<length ms]
               in (case linregress no_RMS_metrics (map ln ms) of
                     Inl e \<Rightarrow> Inl e
                   | Inr (slope, intercept, r_value, p_value, std_err) \<Rightarrow>
                       Inr [slope, intercept, r_value, ln p_value, std_err])))"

text \<open>The ring statistics as the specification words them: the annulus between 10% and
  100% of the cutoff radius in \<open>n\<close> rings of equal width, one RMS value for each.\<close>

definition ring_metrics_spec :: "(int list list \<Rightarrow> real) \<Rightarrow> nat \<Rightarrow> nat \<Rightarrow> real \<Rightarrow> real list" where
  "ring_metrics_spec ring_rms side n outer =
     map (\<lambda>k. ring_rms (make_ring_mask (side, side)
                          (0.1 * outer + real k * (0.9 * outer / real n))
                          (0.1 * outer + real (k + 1) * (0.9 * outer / real n))))
       [0..<n]"

subsection \<open>create_control_matrix\<close>

text \<open>
  Lines 246 to 321. Unwrapping, the modal decomposition, the regression and the
  pseudo-inverse are floating-point library code; the model takes them as functions of a
  frame \<open>'img\<close> of the stack:
  \<^item> \<open>no_discontinuities img\<close>, the count of line 283 for the unwrapped frame;
  \<^item> \<open>zernike_modes img k\<close>, the \<open>k\<close> coefficients \<open>get_zernike_modes(phase_unwrap(img), k)\<close>;
  \<^item> \<open>linregress_slope xs ys\<close>, the slope of \<open>stats.linregress(xs, ys)\<close>, or \<open>None\<close> when
    the call raises (lines 309 and 310 print the exception and go on);
  \<^item> \<open>pinv C rcond\<close>, \<open>np.linalg.pinv\<close>.
\<close>

record 'img numerics =
  no_discontinuities :: "'img \<Rightarrow> nat"
  zernike_modes :: "'img \<Rightarrow> nat \<Rightarrow> real list"
  linregress_slope :: "real list \<Rightarrow> real list \<Rightarrow> real option"
  pinv :: "real list list \<Rightarrow> real \<Rightarrow> matrix"

text \<open>Line 284: the frame is kept unless the count exceeds a thousandth of its pixels.\<close>

definition retained :: "'img numerics \<Rightarrow> nat \<Rightarrow> nat \<Rightarrow> 'img \<Rightarrow> bool" where
  "retained lib x y img = (\<not> real (no_discontinuities lib img) > real (x * y) / 1000)"

text \<open>Lines 280 to 292, the body of the loop over the poke steps of actuator \<open>ii\<close>; the
  state is \<open>(pokeSteps_trimmed_list, zernikeModeAmp_list)\<close>.\<close>

definition poke_step ::
  "'img numerics \<Rightarrow> 'img list \<Rightarrow> nat \<Rightarrow> nat \<Rightarrow> nat \<Rightarrow> real list \<Rightarrow> nat \<Rightarrow> nat
     \<Rightarrow> real list \<times> real list list \<Rightarrow> error + real list \<times> real list list" where
  "poke_step lib imageStack x y noZernikeModes pokeSteps ii jj acc =
     (let k = ii * length pokeSteps + jj
      in if length imageStack \<le> k then Inl IndexError
         else if retained lib x y (imageStack ! k)
         then Inr (fst acc @ [pokeSteps ! jj],
                   snd acc @ [zernike_modes lib (imageStack ! k) noZernikeModes])
         else Inr acc)"

text \<open>Lines 305 to 310: one regression for each mode; a failed one leaves the entry of
  \<open>slopes\<close> as it was.\<close>

definition fit_slopes ::
  "'img numerics \<Rightarrow> nat \<Rightarrow> real list \<Rightarrow> real list list \<Rightarrow> real list \<Rightarrow> real list" where
  "fit_slopes lib noZernikeModes pokeSteps_trimmed zernikeModeAmp slopes =
     fold (\<lambda>kk sl. case linregress_slope lib pokeSteps_trimmed (map (\<lambda>amps. amps ! kk) zernikeModeAmp) of
                      None \<Rightarrow> sl
                    | Some v \<Rightarrow> sl[kk := v])
       [0..<noZernikeModes] slopes"

text \<open>Lines 275 to 317, the body of the loop over the actuators; the state is
  \<open>(C_mat, slopes)\<close>, with \<open>C_mat\<close> as its list of rows (one for each mode).\<close>

definition actuator_step ::
  "'img numerics \<Rightarrow> 'img list \<Rightarrow> nat \<Rightarrow> nat \<Rightarrow> nat \<Rightarrow> real list \<Rightarrow> real list \<Rightarrow> nat
     \<Rightarrow> real list list \<times> real list \<Rightarrow> error + real list list \<times> real list" where
  "actuator_step lib imageStack x y noZernikeModes pokeSteps pupil_ac ii st =
     (if length pupil_ac \<le> ii then Inl IndexError
      else if pupil_ac ! ii = 1 then
        (case foldM (poke_step lib imageStack x y noZernikeModes pokeSteps ii)
                [0..<length pokeSteps] ([], []) of
           Inl e \<Rightarrow> Inl e
         | Inr (pokeSteps_trimmed, zernikeModeAmp) \<Rightarrow>
             if length pokeSteps_trimmed < 2 then Inl (NotEnoughValues (int ii + 1))
             else let slopes = fit_slopes lib noZernikeModes pokeSteps_trimmed zernikeModeAmp (snd st)
                  in Inr (map2 (\<lambda>row v. row[ii := v]) (fst st) slopes, slopes))
      else Inr st)"

text \<open>The whole function, for a stack of frames of shape \<open>x\<close> by \<open>y\<close>. The control matrix
  is assigned to the field on line 319 only.\<close>

definition create_control_matrix ::
  "'img numerics \<Rightarrow> ctx \<Rightarrow> 'img list \<Rightarrow> nat \<Rightarrow> nat \<Rightarrow> nat \<Rightarrow> nat \<Rightarrow> real list
     \<Rightarrow> real list option \<Rightarrow> real \<Rightarrow> ctx \<times> (error + matrix)" where
  "create_control_matrix lib self imageStack x y nAct noZernikeModes pokeSteps pupil_ac threshold =
     (let pupil = (case pupil_ac of None \<Rightarrow> replicate nAct 1 | Some p \<Rightarrow> p)
      in if x \<noteq> y then (self, Inl AssertionError)
         else case foldM (actuator_step lib imageStack x y noZernikeModes pokeSteps pupil)
                     [0..<nAct] (replicate noZernikeModes (replicate nAct 0), replicate noZernikeModes 0) of
                Inl e \<Rightarrow> (self, Inl e)
              | Inr (C_mat, slopes) \<Rightarrow>
                  let cm = pinv lib C_mat threshold
                  in (self\<lparr>controlMatrix := Some cm\<rparr>, Inr cm))"

text \<open>The number of frames of actuator \<open>ii\<close> that the loop keeps.\<close>

definition retained_count ::
  "'img numerics \<Rightarrow> 'img list \<Rightarrow> nat \<Rightarrow> nat \<Rightarrow> real list \<Rightarrow> nat \<Rightarrow> nat" where
  "retained_count lib imageStack x y pokeSteps ii =
     length (filter (\<lambda>jj. retained lib x y (imageStack ! (ii * length pokeSteps + jj)))
               [0..<length pokeSteps])"

subsection \<open>get_zernike_modes_sensorless\<close>

text \<open>
  Lines 405 to 417. \<open>find_amp image_stack zernike_applied\<close> stands for
  \<open>find_zernike_amp_sensorless\<close>, floating-point code that returns an amplitude or raises.
  \<open>numMes\<close> is a quotient of two Python integers: an integer under Python 2, a float
  under Python 3, where the slice of the first statement of the loop raises TypeError.
\<close>

definition sensorless_step ::
  "pyver \<Rightarrow> ('img list \<Rightarrow> real list \<Rightarrow> error + real) \<Rightarrow> 'img list \<Rightarrow> matrix \<Rightarrow> int list
     \<Rightarrow> int \<Rightarrow> nat \<Rightarrow> real list \<Rightarrow> error + real list" where
  "sensorless_step py find_amp full_image_stack full_zernike_applied nollZernike numMes ii coef =
     (case py of
        Py3 \<Rightarrow> Inl TypeError
      | Py2 \<Rightarrow>
          let image_stack = py_slice full_image_stack (int ii * numMes) ((int ii + 1) * numMes)
          in case py_index (ncols full_zernike_applied) (nollZernike ! ii - 1) of
               Inl e \<Rightarrow> Inl e
             | Inr c \<Rightarrow>
                 let zernike_applied =
                       map (\<lambda>row. row ! c)
                         (py_slice (rows full_zernike_applied) (int ii * numMes) ((int ii + 1) * numMes))
                 in case find_amp image_stack zernike_applied of
                      Inl e \<Rightarrow> Inl e
                    | Inr amp \<Rightarrow>
                        (case py_index (length coef) (nollZernike ! ii - 1) of
                           Inl e \<Rightarrow> Inl e
                         | Inr c' \<Rightarrow> Inr (coef[c' := amp])))"

definition get_zernike_modes_sensorless ::
  "pyver \<Rightarrow> ('img list \<Rightarrow> real list \<Rightarrow> error + real) \<Rightarrow> 'img list \<Rightarrow> matrix \<Rightarrow> int list
     \<Rightarrow> error + real list" where
  "get_zernike_modes_sensorless py find_amp full_image_stack full_zernike_applied nollZernike =
     (if length nollZernike = 0 then Inl ZeroDivisionError
      else let numMes = int (length (rows full_zernike_applied)) div int (length nollZernike);
               coef = replicate (ncols full_zernike_applied) 0
           in foldM (sensorless_step py find_amp full_image_stack full_zernike_applied nollZernike numMes)
                [0..<length nollZernike] coef)"

section \<open>The device (aoDev.py)\<close>

text \<open>
  The fields of \<open>AdaptiveOpticsDevice\<close> that the modelled methods read or write. The
  module keeps one algorithm object, \<open>aoAlg\<close>, for all calls; it is part of the state.
  The mirror is the list of the patterns applied to it, the latest last.
\<close>

record device =
  roi :: "(int \<times> int \<times> nat) option"
  dev_mask :: "bool list list option"
  dev_fft_filter :: "real list list option"
  dev_controlMatrix :: "matrix option"
  dev_numActuators :: nat
  mirror :: "real list list"
  aoAlg :: ctx

text \<open>Lines 122 to 129. \<open>send\<close> clips the array it is given in place, so the caller's
  array is the clipped one afterwards; it is returned with the new state.\<close>

definition send :: "device \<Rightarrow> real list \<Rightarrow> device \<times> real list" where
  "send self vals =
     (let clipped = map (\<lambda>v. if v < 0 then 0 else v) (map (\<lambda>v. if v > 1 then 1 else v) vals)
      in (self\<lparr>mirror := mirror self @ [clipped]\<rparr>, clipped))"

text \<open>Lines 142 to 159. \<open>make_mask\<close> is the one of the shared algorithm object, which
  stores the mask too; the two assertions of the method cannot fail.\<close>

definition set_roi :: "device \<Rightarrow> int \<Rightarrow> int \<Rightarrow> nat \<Rightarrow> device" where
  "set_roi self y0 x0 radius =
     (let self1 = self\<lparr>roi := Some (y0, x0, radius)\<rparr>
      in case make_mask (aoAlg self1) radius of
           (alg, m) \<Rightarrow> self1\<lparr>aoAlg := alg, dev_mask := Some m, dev_fft_filter := None\<rparr>)"

text \<open>Lines 247 to 258, for a test image given by what \<open>make_fft_filter\<close> takes from it.
  An exception of \<open>make_fft_filter\<close> is logged and the field is returned as it is.\<close>

definition set_fourierfilter ::
  "pyver \<Rightarrow> device \<Rightarrow> nat \<times> nat \<times> nat \<times> (int \<times> int \<Rightarrow> (int \<times> int) option)
     \<Rightarrow> device \<times> (error + real list list option)" where
  "set_fourierfilter py self test_image =
     (case test_image of (n, argmax1, argmax2, com) \<Rightarrow>
        if roi self = None then (self, Inl NoRoi)
        else case make_fft_filter py (aoAlg self) n argmax1 argmax2 com of
               (alg, Inl e) \<Rightarrow> (self\<lparr>aoAlg := alg\<rparr>, Inr (dev_fft_filter self))
             | (alg, Inr f) \<Rightarrow> (self\<lparr>aoAlg := alg, dev_fft_filter := Some f\<rparr>, Inr (Some f)))"

text \<open>\<open>a += b\<close> and \<open>a[:] = b\<close> on one-dimensional arrays: \<open>b\<close> has the length of \<open>a\<close> or a
  single entry, otherwise ValueError. \<open>a * b\<close> also broadcasts a single-entry \<open>a\<close>.\<close>

definition np_iadd :: "real list \<Rightarrow> real list \<Rightarrow> error + real list" where
  "np_iadd a b =
     (if length b = length a then Inr (map2 (+) a b)
      else if length b = 1 then Inr (map (\<lambda>v. v + b ! 0) a)
      else Inl ValueError)"

definition np_assign :: "real list \<Rightarrow> real list \<Rightarrow> error + real list" where
  "np_assign a b =
     (if length b = length a then Inr b
      else if length b = 1 then Inr (replicate (length a) (b ! 0))
      else Inl ValueError)"

definition np_mul :: "real list \<Rightarrow> real list \<Rightarrow> error + real list" where
  "np_mul a b =
     (if length b = length a then Inr (map2 (*) a b)
      else if length b = 1 then Inr (map (\<lambda>v. v * b ! 0) a)
      else if length a = 1 then Inr (map (\<lambda>v. a ! 0 * v) b)
      else Inl ValueError)"

text \<open>Lines 504 to 512. The result is the array that \<open>send\<close> has clipped.\<close>

definition set_phase :: "device \<Rightarrow> real list \<Rightarrow> real list option \<Rightarrow> device \<times> (error + real list)" where
  "set_phase self applied_z_modes offset =
     (case ac_pos_from_zernike (aoAlg self) applied_z_modes (int (dev_numActuators self)) of
        Inl e \<Rightarrow> (self, Inl e)
      | Inr pos \<Rightarrow>
          let actuator_pos = map (\<lambda>v. - 1.0 * v) pos
          in case (case offset of
                     None \<Rightarrow> Inr (map (\<lambda>v. v + 0.5) actuator_pos)
                   | Some off \<Rightarrow> np_iadd actuator_pos off) of
               Inl e \<Rightarrow> (self, Inl e)
             | Inr moved \<Rightarrow> (case send self moved of (self', sent) \<Rightarrow> (self', Inr sent)))"

subsection \<open>flatten_phase\<close>

text \<open>
  Lines 434 to 501. The camera, the unwrapping and the modal decomposition are outside
  the model: \<open>cam ii\<close> is what iteration \<open>ii\<close> measures, the pair of
  \<open>getzernikemodes(interferogram_unwrap, nzernike)\<close> and of the RMS of the unwrapped phase
  (lines 479 to 481 and 489); \<open>rms0\<close> is the RMS measured before the loop (line 476).
  The state of the loop is the device with the three \<open>best_\<close> variables.
\<close>

record flat_state =
  dev :: device
  best_flat_actuators :: "real list"
  best_z_amps :: "real list"
  best_rms_error :: real

text \<open>Lines 479 to 498, the body of the loop.\<close>

definition flatten_step ::
  "(nat \<Rightarrow> real list \<times> real) \<Rightarrow> real list option \<Rightarrow> nat \<Rightarrow> flat_state \<Rightarrow> error + flat_state" where
  "flatten_step cam z_modes_ignore ii st =
     (let rms_error = snd (cam ii)
      in case (case z_modes_ignore of None \<Rightarrow> Inr (fst (cam ii)) | Some ign \<Rightarrow> np_mul (fst (cam ii)) ign) of
           Inl e \<Rightarrow> Inl e
         | Inr z_amps \<Rightarrow>
             (case set_phase (dev st) z_amps (Some (best_flat_actuators st)) of
                (self', Inl e) \<Rightarrow> Inl e
              | (self', Inr flat_actuators) \<Rightarrow>
                  if rms_error < best_rms_error st then
                    Inr (st\<lparr>dev := self', best_z_amps := z_amps,
                             best_flat_actuators := flat_actuators, best_rms_error := rms_error\<rparr>)
                  else if rms_error > best_rms_error st then Inr (st\<lparr>dev := self'\<rparr>)
                  else (case np_assign (best_flat_actuators st) flat_actuators of
                          Inl e \<Rightarrow> Inl e
                        | Inr b \<Rightarrow> Inr (st\<lparr>dev := self', best_flat_actuators := b\<rparr>))))"

text \<open>Lines 466 to 498: the first pattern, the first measurement and the loop.\<close>

definition flatten_loop ::
  "(nat \<Rightarrow> real list \<times> real) \<Rightarrow> real \<Rightarrow> real list option \<Rightarrow> int \<Rightarrow> device \<Rightarrow> nat \<Rightarrow> nat
     \<Rightarrow> error + flat_state" where
  "flatten_loop cam rms0 z_modes_ignore iterations self nAct nzernike =
     (case send self (replicate nAct 0.5) of
        (self1, best) \<Rightarrow>
          foldM (flatten_step cam z_modes_ignore) [0..<nat iterations]
            \<lparr>dev = self1, best_flat_actuators = best, best_z_amps = replicate nzernike 0,
             best_rms_error = rms0\<rparr>)"

text \<open>The whole method, with the device as it is after the last statement. Without a
  filter it builds one from a test image first (the camera is taken to deliver its
  frames). The default of \<open>z_modes_ignore\<close> compares a \<open>range\<close> with a number, which is
  \<open>True\<close> under Python 2 (the amplitudes are kept as they are) and TypeError under
  Python 3.\<close>

definition flatten_phase ::
  "pyver \<Rightarrow> (nat \<Rightarrow> real list \<times> real) \<Rightarrow> real
     \<Rightarrow> nat \<times> nat \<times> nat \<times> (int \<times> int \<Rightarrow> (int \<times> int) option)
     \<Rightarrow> device \<Rightarrow> int \<Rightarrow> real list option \<Rightarrow> error + device \<times> real list" where
  "flatten_phase py cam rms0 test_image self iterations z_modes_ignore =
     (if roi self = None then Inl NoRoi
      else case (if dev_fft_filter self = None
                 then (case set_fourierfilter py self test_image of
                         (s, Inl e) \<Rightarrow> Inl e
                       | (s, Inr f) \<Rightarrow> Inr (s\<lparr>dev_fft_filter := f\<rparr>))
                 else Inr self) of
             Inl e \<Rightarrow> Inl e
           | Inr self1 \<Rightarrow>
               (case dev_controlMatrix self1 of
                  None \<Rightarrow> Inl ValueError
                | Some cm \<Rightarrow>
                    if length (rows cm) \<noteq> dev_numActuators self1 then Inl DimensionMismatch
                    else if z_modes_ignore = None \<and> py = Py3 then Inl TypeError
                    else case flatten_loop cam rms0 z_modes_ignore iterations self1
                                (length (rows cm)) (ncols cm) of
                           Inl e \<Rightarrow> Inl e
                         | Inr st \<Rightarrow> Inr (send (dev st) (best_flat_actuators st))))"

text \<open>The values a pattern has once \<open>send\<close> has clipped it.\<close>

definition unit_range :: "real list \<Rightarrow> bool" where
  "unit_range vs = (\<forall>v \<in> set vs. 0 \<le> v \<and> v \<le> 1)"

section \<open>Example inputs\<close>

text \<open>An algorithm object and a device with one actuator, a one by one control matrix
  and a filter; a calibration library whose frames are their own discontinuity count.\<close>

definition example_alg :: ctx where
  "example_alg = \<lparr>mask = None, fft_filter = Some [[1]],
      controlMatrix = Some \<lparr>ncols = 1, rows = [[1]]\<rparr>, OTF_ring_mask = None\<rparr>"

definition example_device :: device where
  "example_device = \<lparr>roi = Some (1, 1, 1), dev_mask = None, dev_fft_filter = Some [[1]],
      dev_controlMatrix = Some \<lparr>ncols = 1, rows = [[1]]\<rparr>, dev_numActuators = 1,
      mirror = [], aoAlg = example_alg\<rparr>"

definition example_numerics :: "nat numerics" where
  "example_numerics = \<lparr>no_discontinuities = (\<lambda>img. img),
      zernike_modes = (\<lambda>img k. replicate k 0),
      linregress_slope = (\<lambda>xs ys. Some 0),
      pinv = (\<lambda>C rcond. \<lparr>ncols = 0, rows = []\<rparr>)\<rparr>"

section \<open>Properties\<close>

subsection \<open>Loops\<close>

lemma foldM_append:
  "foldM body (xs @ ys) s = (case foldM body xs s of Inl e \<Rightarrow> Inl e | Inr s' \<Rightarrow> foldM body ys s')"
  by (induction xs arbitrary: s) (auto split: sum.splits)

lemma foldM_never:
  assumes "\<And>x s. body x s \<noteq> Inl e"
  shows "foldM body xs s \<noteq> Inl e"
  using assms by (induction xs arbitrary: s) (auto split: sum.splits)

lemma foldM_invariant:
  assumes "foldM body xs s = Inr s'" and "P s"
    and "\<And>x a b. P a \<Longrightarrow> body x a = Inr b \<Longrightarrow> P b"
  shows "P s'"
  using assms(1,2)
proof (induction xs arbitrary: s)
  case Nil
  then show ?case by simp
next
  case (Cons x xs)
  from Cons.prems(1) obtain s1 where a: "body x s = Inr s1" and b: "foldM body xs s1 = Inr s'"
    by (auto split: sum.splits)
  from assms(3) [OF Cons.prems(2) a] have "P s1" .
  from Cons.IH [OF b this] show ?case .
qed

subsection \<open>Command mapper\<close>

lemma ac_pos_from_zernike_long:
  assumes "controlMatrix self = Some C" and "ncols C \<le> length v"
    and "int (length (rows C)) = nAct"
  shows "ac_pos_from_zernike self v nAct = Inr (command_mapper_spec C v)"
  using assms
  by (auto simp: ac_pos_from_zernike_def np_dot_def command_mapper_spec_def conform_spec_def
      Let_def)

lemma ac_pos_from_zernike_short:
  assumes "controlMatrix self = Some C" and "length v < ncols C"
  shows "ac_pos_from_zernike self v nAct = Inl ValueError"
  using assms by (simp add: ac_pos_from_zernike_def np_pad_def Let_def)

text \<open>
  C1. The command mapper is claimed to zero-pad a modal vector that is shorter than the
  mode dimension of the control matrix and then to return the product. With the 1 by 2
  control matrix \<open>[[1, 1]]\<close>, one actuator and the modal vector \<open>[1]\<close> the claimed result is
  \<open>[1]\<close>, while \<open>ac_pos_from_zernike\<close> raises ValueError at its call of \<open>np.pad\<close>.
\<close>

theorem C1_short_vector_raises:
  "ac_pos_from_zernike
     \<lparr>mask = None, fft_filter = None,
      controlMatrix = Some \<lparr>ncols = 2, rows = [[1, 1]]\<rparr>, OTF_ring_mask = None\<rparr> [1] 1
     = Inl ValueError
   \<and> command_mapper_spec \<lparr>ncols = 2, rows = [[1, 1]]\<rparr> [1] = [1]"
  by (simp add: ac_pos_from_zernike_def np_pad_def command_mapper_spec_def conform_spec_def
      Let_def)

lemma upt_small: "[0..<2] = [0, 1::nat]" "[0..<3] = [0, 1, 2::nat]" "[0..<4] = [0, 1, 2, 3::nat]"
  by (simp_all add: upt_rec)

subsection \<open>Pupil mask and ring masks\<close>

lemma sqrt_less_iff_sq: "0 \<le> r \<Longrightarrow> (sqrt x < r) = (x < r\<^sup>2)"
  by (metis real_sqrt_less_iff real_sqrt_abs abs_of_nonneg)

lemma length_arange: "length (arange (- int r) (int r)) = 2 * r"
  by (simp add: arange_def)

lemma arange_nth: "i < 2 * r \<Longrightarrow> arange (- int r) (int r) ! i = int i - int r"
  by (simp add: arange_def)

lemma length_dist_grid: "length (dist_grid r) = 2 * r"
  by (simp add: dist_grid_def length_arange)

lemma length_dist_grid_row: "i < 2 * r \<Longrightarrow> length (dist_grid r ! i) = 2 * r"
  by (simp add: dist_grid_def length_arange)

lemma dist_grid_rows: "row \<in> set (dist_grid r) \<Longrightarrow> length row = 2 * r"
  by (auto simp: dist_grid_def length_arange)

lemma dist_grid_nth:
  assumes "i < 2 * r" and "j < 2 * r"
  shows "dist_grid r ! i ! j = sqrt (real_of_int ((int i - int r)\<^sup>2 + (int j - int r)\<^sup>2))"
  using assms by (simp add: dist_grid_def length_arange arange_nth)

lemma dist_grid_sym:
  assumes "1 \<le> i" "i < 2 * r" "1 \<le> j" "j < 2 * r"
  shows "dist_grid r ! (2 * r - i) ! (2 * r - j) = dist_grid r ! i ! j"
proof -
  have "(int (2 * r - i) - int r)\<^sup>2 = (int i - int r)\<^sup>2"
    "(int (2 * r - j) - int r)\<^sup>2 = (int j - int r)\<^sup>2"
    using assms by (simp_all add: power2_eq_square algebra_simps of_nat_diff)
  moreover have "2 * r - i < 2 * r" "2 * r - j < 2 * r"
    using assms by simp_all
  ultimately show ?thesis
    using assms by (simp add: dist_grid_nth)
qed

text \<open>
  C7 (as amended). For every radius \<open>r > 0\<close>, \<open>make_mask\<close> is deterministic: the mask it
  returns does not depend on the state of the object. The mask has \<open>2r\<close> rows of \<open>2r\<close>
  entries, is stored in the object, and is symmetric under the rotation by 180 degrees
  about the pixel \<open>(r, r)\<close>, the origin of the coordinates \<open>-r, ..., r - 1\<close> the code
  samples: \<open>mask[i][j] = mask[2r - i][2r - j]\<close> for all \<open>1 \<le> i, j \<le> 2r - 1\<close>.
\<close>

theorem C7_make_mask_symmetric_about_origin:
  assumes "0 < r"
  shows "snd (make_mask s1 r) = snd (make_mask s2 r)
       \<and> mask (fst (make_mask s1 r)) = Some (snd (make_mask s1 r))
       \<and> length (snd (make_mask s1 r)) = 2 * r
       \<and> (\<forall>row \<in> set (snd (make_mask s1 r)). length row = 2 * r)
       \<and> (\<forall>i j. 1 \<le> i \<and> i < 2 * r \<and> 1 \<le> j \<and> j < 2 * r
              \<longrightarrow> snd (make_mask s1 r) ! i ! j = snd (make_mask s1 r) ! (2 * r - i) ! (2 * r - j))"
proof -
  define m where "m = map (map (\<lambda>d. d < real r)) (dist_grid r)"
  have res: "make_mask s r = (s\<lparr>mask := Some m\<rparr>, m)" for s
    by (simp add: make_mask_def Let_def m_def)
  have len: "length m = 2 * r" by (simp add: length_dist_grid m_def)
  have all_rows: "\<forall>row \<in> set m. length row = 2 * r"
    unfolding m_def using dist_grid_rows by fastforce
  have rot: "m ! i ! j = m ! (2 * r - i) ! (2 * r - j)"
    if "1 \<le> i \<and> i < 2 * r \<and> 1 \<le> j \<and> j < 2 * r" for i j
  proof -
    have a: "2 * r - i < 2 * r" "2 * r - j < 2 * r" "i < 2 * r" "j < 2 * r"
      using that by auto
    have "m ! i ! j = (dist_grid r ! i ! j < real r)"
      unfolding m_def using a by (simp add: length_dist_grid length_dist_grid_row)
    moreover have "m ! (2 * r - i) ! (2 * r - j)
        = (dist_grid r ! (2 * r - i) ! (2 * r - j) < real r)"
      unfolding m_def using a by (simp add: length_dist_grid length_dist_grid_row)
    ultimately show ?thesis
      using that dist_grid_sym [of i r j] by simp
  qed
  show ?thesis
    unfolding res fst_conv snd_conv
  proof (intro conjI allI impI)
    show "m = m" by (rule refl)
    show "mask (s1\<lparr>mask := Some m\<rparr>) = Some m" by simp
    show "length m = 2 * r" by (rule len)
    show "\<forall>row \<in> set m. length row = 2 * r" by (rule all_rows)
    show "m ! i ! j = m ! (2 * r - i) ! (2 * r - j)"
      if "1 \<le> i \<and> i < 2 * r \<and> 1 \<le> j \<and> j < 2 * r" for i j
      using that by (rule rot)
  qed
qed

theorem C7_make_mask_symmetric_witness:
  "(0::nat) < 2
   \<and> snd (make_mask \<lparr>mask = None, fft_filter = None, controlMatrix = None, OTF_ring_mask = None\<rparr> 2)
     = snd (make_mask example_alg 2)
   \<and> length (snd (make_mask example_alg 2)) = 4
   \<and> snd (make_mask example_alg 2) ! 1 ! 2 = snd (make_mask example_alg 2) ! 3 ! 2"
proof -
  let ?c0 = "\<lparr>mask = None, fft_filter = None, controlMatrix = None, OTF_ring_mask = None\<rparr>"
  have pos: "(0::nat) < 2" by simp
  note sym = C7_make_mask_symmetric_about_origin [OF pos]
  have same: "snd (make_mask ?c0 2) = snd (make_mask example_alg 2)"
    using sym [of ?c0 example_alg] by blast
  have len: "length (snd (make_mask example_alg 2)) = 2 * 2"
    using sym [of example_alg example_alg] by blast
  have "\<forall>i j. 1 \<le> i \<and> i < 2 * 2 \<and> 1 \<le> j \<and> j < 2 * 2
      \<longrightarrow> snd (make_mask example_alg 2) ! i ! j = snd (make_mask example_alg 2) ! (2 * 2 - i) ! (2 * 2 - j)"
    using sym [of example_alg example_alg] by blast
  then have "snd (make_mask example_alg 2) ! 1 ! 2 = snd (make_mask example_alg 2) ! (2 * 2 - 1) ! (2 * 2 - 2)"
    by (rule allE [where x = 1], elim allE [where x = 2]) simp
  then have "snd (make_mask example_alg 2) ! 1 ! 2 = snd (make_mask example_alg 2) ! 3 ! 2"
    by simp
  with pos same len show ?thesis by simp
qed

text \<open>
  C7 as claimed, with the rotation \<open>mask[i][j] = mask[2r-1-i][2r-1-j]\<close> about the middle
  of the grid, fails at \<open>r = 1\<close>: the mask is \<open>[[False, False], [False, True]]\<close>, and its
  entries \<open>(0, 0)\<close> and \<open>(1, 1)\<close> differ.
\<close>

theorem C7_rotation_about_middle_fails:
  "snd (make_mask example_alg 1) = [[False, False], [False, True]]
   \<and> snd (make_mask example_alg 1) ! 0 ! 0
     \<noteq> snd (make_mask example_alg 1) ! (2 * 1 - 1 - 0) ! (2 * 1 - 1 - 0)"
  by (simp add: make_mask_def dist_grid_def arange_def upt_small sqrt_less_iff_sq Let_def)

lemma ring_pixel:
  assumes "i < 2 * (h div 2)" "j < 2 * (h div 2)"
  shows "(make_ring_mask (h, w) inner outer ! i ! j \<noteq> 0)
     = (inner \<le> dist_grid (h div 2) ! i ! j \<and> dist_grid (h div 2) ! i ! j < outer)"
  using assms
  by (auto simp: make_ring_mask_def Let_def length_dist_grid length_dist_grid_row)

text \<open>
  C10. A pixel \<open>(i, j)\<close> of \<open>make_ring_mask(size, inner_rad, outer_rad)\<close> is set (nonzero)
  exactly when its distance from the centre of the grid, the pixel \<open>(radius, radius)\<close>
  with \<open>radius = size[0] div 2\<close>, is at least \<open>inner_rad\<close> and less than \<open>outer_rad\<close>;
  and two rings built from consecutive entries of one sorted sequence of radii have no
  set pixel in common.
\<close>

theorem C10_ring_mask_pixels:
  "(i < 2 * (h div 2) \<and> j < 2 * (h div 2) \<longrightarrow>
      (make_ring_mask (h, w) inner_rad outer_rad ! i ! j \<noteq> 0)
      = (inner_rad \<le> sqrt (real_of_int ((int i - int (h div 2))\<^sup>2 + (int j - int (h div 2))\<^sup>2))
         \<and> sqrt (real_of_int ((int i - int (h div 2))\<^sup>2 + (int j - int (h div 2))\<^sup>2)) < outer_rad))
   \<and> (sorted radii \<and> a < b \<and> Suc b < length radii \<and> i < 2 * (h div 2) \<and> j < 2 * (h div 2) \<longrightarrow>
        \<not> (make_ring_mask (h, w) (radii ! a) (radii ! Suc a) ! i ! j \<noteq> 0
           \<and> make_ring_mask (h, w) (radii ! b) (radii ! Suc b) ! i ! j \<noteq> 0))"
proof (intro conjI impI)
  assume "i < 2 * (h div 2) \<and> j < 2 * (h div 2)"
  then show "(make_ring_mask (h, w) inner_rad outer_rad ! i ! j \<noteq> 0)
      = (inner_rad \<le> sqrt (real_of_int ((int i - int (h div 2))\<^sup>2 + (int j - int (h div 2))\<^sup>2))
         \<and> sqrt (real_of_int ((int i - int (h div 2))\<^sup>2 + (int j - int (h div 2))\<^sup>2)) < outer_rad)"
    by (simp only: ring_pixel dist_grid_nth)
next
  assume A: "sorted radii \<and> a < b \<and> Suc b < length radii \<and> i < 2 * (h div 2) \<and> j < 2 * (h div 2)"
  then have "radii ! Suc a \<le> radii ! b"
    by (simp add: sorted_iff_nth_mono)
  with A show "\<not> (make_ring_mask (h, w) (radii ! a) (radii ! Suc a) ! i ! j \<noteq> 0
           \<and> make_ring_mask (h, w) (radii ! b) (radii ! Suc b) ! i ! j \<noteq> 0)"
    by (simp add: ring_pixel)
qed

theorem C10_ring_mask_pixels_witness:
  "(2::nat) < 2 * (4 div 2) \<and> (3::nat) < 2 * (4 div 2)
   \<and> make_ring_mask (4, 4) (1 / 2) (3 / 2) ! 2 ! 3 \<noteq> 0
   \<and> sorted [0, 1, 2 :: real] \<and> (0::nat) < 1 \<and> Suc 1 < length [0, 1, 2 :: real]
   \<and> make_ring_mask (4, 4) 0 1 ! 2 ! 3 = 0 \<and> make_ring_mask (4, 4) 1 2 ! 2 ! 3 \<noteq> 0"
proof -
  have one: "sqrt (real_of_int ((int 2 - int (4 div 2))\<^sup>2 + (int 3 - int (4 div 2))\<^sup>2)) = 1"
    by simp
  have "make_ring_mask (4, 4) (1 / 2) (3 / 2) ! 2 ! 3 \<noteq> 0"
    using C10_ring_mask_pixels [where i = 2 and j = 3 and h = 4 and w = 4
        and inner_rad = "1 / 2" and outer_rad = "3 / 2"]
    by (simp only: one) simp
  moreover have "make_ring_mask (4, 4) 1 2 ! 2 ! 3 \<noteq> 0"
    using C10_ring_mask_pixels [where i = 2 and j = 3 and h = 4 and w = 4
        and inner_rad = 1 and outer_rad = 2]
    by (simp only: one) simp
  moreover have "\<not> (make_ring_mask (4, 4) 0 1 ! 2 ! 3 \<noteq> 0 \<and> make_ring_mask (4, 4) 1 2 ! 2 ! 3 \<noteq> 0)"
    using C10_ring_mask_pixels [where i = 2 and j = 3 and h = 4 and w = 4
        and radii = "[0, 1, 2]" and a = 0 and b = 1]
    by simp
  ultimately show ?thesis by simp
qed

subsection \<open>Sharpness metric\<close>

lemma RMS_metrics_length:
  assumes "1 \<le> num_segs" and "RMS_metrics ring_rms side num_segs outer = Inr ms"
  shows "int (length ms) = num_segs - 1"
  using assms
  by (auto simp: RMS_metrics_def linspace_def Let_def split: if_splits)

text \<open>
  C5. The metric is claimed to use all \<open>n\<close> rings between 10% and 100% of the cutoff
  radius. For \<open>n = 3\<close> (an image of side 4, any cutoff radius \<open>R\<close> and any power spectrum)
  the loop of \<open>measure_fourier_metric\<close> computes the RMS of the first two rings only:
  its list is the list of the three ring values without the last one, so the outermost
  ring never enters the fit.
\<close>

theorem C5_outermost_ring_skipped:
  "RMS_metrics ring_rms 4 3 R = Inr (butlast (ring_metrics_spec ring_rms 4 3 R))
   \<and> length (ring_metrics_spec ring_rms 4 3 R) = 3
   \<and> length (projr (RMS_metrics ring_rms 4 3 R)) = 2"
  by (simp add: RMS_metrics_def linspace_def linspace_pts_def ring_metrics_spec_def upt_small)

subsection \<open>Carrier filter\<close>

lemma refine_never_names_cause:
  "foldM (refine_step py n com) xs maxpoint \<noteq> Inl StripesTooFine"
  by (rule foldM_never)
    (auto simp: refine_step_def raise_stripes_too_fine_def split: pyver.splits option.splits)

lemma refine_example:
  "foldM (refine_step py 64 com) [0..<10] (fst (test_point 64 2052 28))
     = Inl (raise_stripes_too_fine py)"
proof -
  have tp: "test_point 64 2052 28 = ((28, 0), True)"
    by (simp add: test_point_def Let_def)
  have w: "\<not> window_assignable 64 (28, 0)"
    by (simp add: window_assignable_def slice_len_def slice_bounds_def Let_def)
  show ?thesis
    using w by (simp add: tp upt_rec [of 0 10] refine_step_def)
qed

lemma make_fft_filter_never_names_cause:
  "snd (make_fft_filter py self n argmax1 argmax2 com) \<noteq> Inl StripesTooFine"
proof (cases "foldM (refine_step py n com) [0..<10] (fst (test_point n argmax1 argmax2))")
  case (Inl e)
  with refine_never_names_cause [of py n com "[0..<10]" "fst (test_point n argmax1 argmax2)"]
  show ?thesis by (auto simp: make_fft_filter_def)
next
  case (Inr maxpoint)
  then show ?thesis
    by (auto simp: make_fft_filter_def place_filter_def Let_def split: sum.splits if_splits)
qed

text \<open>
  C4. When the refinement window runs off the array, \<open>make_fft_filter\<close> is claimed to
  raise an error that names the cause. Take a 64 by 64 image of fringes with 28 periods
  across it: the largest bin is at column 4 of row 32 (flat index 2052), within 5/16 of
  the edge, so the array is re-shifted and the bin is found at column 28 of row 0 (flat
  index 28). The rows \<open>-25:25\<close> of the window are an empty slice, and the function raises
  TypeError under Python 3 and AttributeError under Python 2: the exception with the
  message is built but not raised.
\<close>

theorem C4_window_off_edge_raises_opaque_error:
  "make_fft_filter Py3 example_alg 64 2052 28 com = (example_alg, Inl TypeError)
   \<and> make_fft_filter Py2 example_alg 64 2052 28 com = (example_alg, Inl AttributeError)"
  by (simp add: make_fft_filter_def refine_example raise_stripes_too_fine_def)

text \<open>
  C8. When the refinement loop of \<open>make_fft_filter\<close> raises, the function raises that
  error and the algorithm object is as it was before the call, its filter included.
\<close>

theorem C8_refinement_error_keeps_filter:
  assumes "0 < n"
    and "foldM (refine_step py n com) [0..<10] (fst (test_point n argmax1 argmax2)) = Inl e"
  shows "make_fft_filter py self n argmax1 argmax2 com = (self, Inl e)"
  using assms by (simp add: make_fft_filter_def)

theorem C8_refinement_error_keeps_filter_witness:
  "(0::nat) < 64
   \<and> foldM (refine_step Py3 64 (\<lambda>p. None)) [0..<10] (fst (test_point 64 2052 28)) = Inl TypeError
   \<and> make_fft_filter Py3 example_alg 64 2052 28 (\<lambda>p. None) = (example_alg, Inl TypeError)
   \<and> fft_filter (fst (make_fft_filter Py3 example_alg 64 2052 28 (\<lambda>p. None))) = Some [[1]]"
proof -
  have pos: "(0::nat) < 64" by simp
  have fails: "foldM (refine_step Py3 64 (\<lambda>p. None)) [0..<10] (fst (test_point 64 2052 28))
      = Inl TypeError"
    by (simp add: refine_example raise_stripes_too_fine_def)
  from C8_refinement_error_keeps_filter [OF pos fails, of example_alg]
  have "make_fft_filter Py3 example_alg 64 2052 28 (\<lambda>p. None) = (example_alg, Inl TypeError)" .
  with pos fails show ?thesis by (simp add: example_alg_def)
qed

text \<open>
  An exception after the loop is another matter. When the last step of the loop moves the
  peak to column 59, the mask of side 20 does not fit the slice of the columns 49 to 63,
  the assignment of line 179 raises ValueError, and the filter of the object is the array
  of zeros of line 169.
\<close>

lemma length_fourier_profile: "length (fourier_profile k) = k"
  by (simp add: fourier_profile_def linspace_pts_def)

lemma upt_ten: "[0..<10] = [0, 1, 2, 3, 4, 5, 6, 7, 8, 9 :: nat]"
  by (simp add: upt_rec)

lemma make_fft_filter_placement_error_example:
  "make_fft_filter py example_alg 64 2078 0 (\<lambda>p. if fst p = 39 then Some (25, 45) else Some (25, 26))
     = (example_alg\<lparr>fft_filter := Some (replicate 64 (replicate 64 0))\<rparr>, Inl ValueError)"
proof -
  have tp: "test_point 64 2078 0 = ((30, 32), False)"
    by (simp add: test_point_def Let_def)
  have w: "window_assignable 64 (m, 32)" if "25 \<le> m" "m \<le> 39" for m
  proof -
    have "nat (m + 25) - nat (m - 25) = 50" using that by linarith
    then show ?thesis
      using that by (simp add: window_assignable_def slice_len_def slice_bounds_def Let_def)
  qed
  have loop: "foldM (refine_step py 64 (\<lambda>p. if fst p = 39 then Some (25, 45) else Some (25, 26)))
      [0..<10] (30, 32) = Inr (59, 32)"
    by (simp add: upt_ten refine_step_def w)
  have place: "place_filter 64 (fourier_profile 20) (59, 32) = Inl ValueError"
    by (simp add: place_filter_def length_fourier_profile slice_bounds_def Let_def)
  show ?thesis
    by (simp add: make_fft_filter_def tp loop place)
qed

subsection \<open>Calibration\<close>

lemma poke_step_in_range:
  assumes "ii * length pokeSteps + jj < length imageStack"
  shows "poke_step lib imageStack x y noZ pokeSteps ii jj acc =
     (if retained lib x y (imageStack ! (ii * length pokeSteps + jj))
      then Inr (fst acc @ [pokeSteps ! jj],
                snd acc @ [zernike_modes lib (imageStack ! (ii * length pokeSteps + jj)) noZ])
      else Inr acc)"
  using assms by (simp add: poke_step_def Let_def)

lemma poke_loop_result:
  assumes "\<forall>jj \<in> set js. ii * length pokeSteps + jj < length imageStack"
  shows "foldM (poke_step lib imageStack x y noZ pokeSteps ii) js acc =
     Inr (fst acc @ map (\<lambda>jj. pokeSteps ! jj)
                     (filter (\<lambda>jj. retained lib x y (imageStack ! (ii * length pokeSteps + jj))) js),
          snd acc @ map (\<lambda>jj. zernike_modes lib (imageStack ! (ii * length pokeSteps + jj)) noZ)
                     (filter (\<lambda>jj. retained lib x y (imageStack ! (ii * length pokeSteps + jj))) js))"
  using assms
proof (induction js arbitrary: acc)
  case Nil
  then show ?case by simp
next
  case (Cons jj js)
  then have "ii * length pokeSteps + jj < length imageStack"
    and rest: "\<forall>jj \<in> set js. ii * length pokeSteps + jj < length imageStack"
    by simp_all
  then show ?case
    by (simp add: poke_step_in_range Cons.IH [OF rest])
qed

lemma poke_loop_count:
  assumes "Suc ii * length pokeSteps \<le> length imageStack"
  shows "\<exists>zs ps. foldM (poke_step lib imageStack x y noZ pokeSteps ii) [0..<length pokeSteps] ([], [])
            = Inr (ps, zs)
          \<and> length ps = retained_count lib imageStack x y pokeSteps ii"
proof -
  have "\<forall>jj \<in> set [0..<length pokeSteps]. ii * length pokeSteps + jj < length imageStack"
    using assms by auto
  from poke_loop_result [OF this, of lib x y noZ "([], [])"] show ?thesis
    by (simp add: retained_count_def)
qed

lemma actuator_step_too_few:
  assumes "ii < length pupil" "pupil ! ii = 1" "Suc ii * length pokeSteps \<le> length imageStack"
    and "retained_count lib imageStack x y pokeSteps ii < 2"
  shows "actuator_step lib imageStack x y noZ pokeSteps pupil ii st = Inl (NotEnoughValues (int ii + 1))"
proof -
  from poke_loop_count [OF assms(3), of lib x y noZ] obtain zs ps where
    "foldM (poke_step lib imageStack x y noZ pokeSteps ii) [0..<length pokeSteps] ([], []) = Inr (ps, zs)"
    "length ps = retained_count lib imageStack x y pokeSteps ii"
    by blast
  then show ?thesis
    using assms(1,2,4) by (simp add: actuator_step_def)
qed

lemma actuator_step_enough:
  assumes "ii < length pupil" "Suc ii * length pokeSteps \<le> length imageStack"
    and "pupil ! ii = 1 \<longrightarrow> 2 \<le> retained_count lib imageStack x y pokeSteps ii"
  shows "\<exists>st'. actuator_step lib imageStack x y noZ pokeSteps pupil ii st = Inr st'"
proof (cases "pupil ! ii = 1")
  case True
  from poke_loop_count [OF assms(2), of lib x y noZ] obtain zs ps where
    "foldM (poke_step lib imageStack x y noZ pokeSteps ii) [0..<length pokeSteps] ([], []) = Inr (ps, zs)"
    "length ps = retained_count lib imageStack x y pokeSteps ii"
    by blast
  then show ?thesis
    using assms(1,3) True by (simp add: actuator_step_def Let_def)
next
  case False
  then show ?thesis using assms(1) by (simp add: actuator_step_def)
qed

lemma actuator_loop_enough:
  assumes "\<forall>i \<in> set xs. i < length pupil \<and> Suc i * length pokeSteps \<le> length imageStack
              \<and> (pupil ! i = 1 \<longrightarrow> 2 \<le> retained_count lib imageStack x y pokeSteps i)"
  shows "\<exists>st'. foldM (actuator_step lib imageStack x y noZ pokeSteps pupil) xs st = Inr st'"
  using assms
proof (induction xs arbitrary: st)
  case Nil
  then show ?case by simp
next
  case (Cons i xs)
  then have "i < length pupil" "Suc i * length pokeSteps \<le> length imageStack"
    "pupil ! i = 1 \<longrightarrow> 2 \<le> retained_count lib imageStack x y pokeSteps i"
    by simp_all
  from actuator_step_enough [OF this] obtain st1 where
    "actuator_step lib imageStack x y noZ pokeSteps pupil i st = Inr st1" by blast
  moreover from Cons have "\<exists>st'. foldM (actuator_step lib imageStack x y noZ pokeSteps pupil) xs st1 = Inr st'"
    by simp
  ultimately show ?case by simp
qed

lemma actuator_loop_first_failure:
  assumes k: "k < nAct" "pupil ! k = 1" "retained_count lib imageStack x y pokeSteps k < 2"
    and before: "\<forall>i < k. pupil ! i = 1 \<longrightarrow> 2 \<le> retained_count lib imageStack x y pokeSteps i"
    and len: "length pupil = nAct" "nAct * length pokeSteps \<le> length imageStack"
  shows "(\<exists>st'. foldM (actuator_step lib imageStack x y noZ pokeSteps pupil) [0..<k] st = Inr st')
       \<and> foldM (actuator_step lib imageStack x y noZ pokeSteps pupil) [0..<nAct] st
           = Inl (NotEnoughValues (int k + 1))"
proof -
  have room: "Suc i * length pokeSteps \<le> length imageStack" if "i < nAct" for i
  proof -
    have "Suc i * length pokeSteps \<le> nAct * length pokeSteps"
      using that by (intro mult_le_mono1) simp
    with len(2) show ?thesis by simp
  qed
  have "\<forall>i \<in> set [0..<k]. i < length pupil \<and> Suc i * length pokeSteps \<le> length imageStack
              \<and> (pupil ! i = 1 \<longrightarrow> 2 \<le> retained_count lib imageStack x y pokeSteps i)"
    using k(1) before len(1) room by auto
  from actuator_loop_enough [OF this] obtain st1 where
    pre: "foldM (actuator_step lib imageStack x y noZ pokeSteps pupil) [0..<k] st = Inr st1"
    by blast
  have fail: "actuator_step lib imageStack x y noZ pokeSteps pupil k st1 = Inl (NotEnoughValues (int k + 1))"
    using k len(1) room [OF k(1)] by (intro actuator_step_too_few) simp_all
  have split: "[0..<nAct] = [0..<k] @ k # [Suc k..<nAct]"
    using k(1) by (metis upt_conv_Cons upt_add_eq_append le_add_diff_inverse less_imp_le zero_le)
  show ?thesis
    using pre fail by (simp add: split foldM_append)
qed

text \<open>
  C3. Let the stack hold a frame for every poke step of every actuator. If an included
  actuator \<open>k'\<close> keeps fewer than 2 of its frames, \<open>create_control_matrix\<close> raises the
  exception whose message names an included actuator with fewer than 2 kept frames (the
  first one, \<open>k\<close>, by its number \<open>k + 1\<close>); no control matrix is returned and the
  algorithm object is unchanged, so none is stored; and the loop has processed the
  actuators before \<open>k\<close> without an exception.
\<close>

theorem C3_too_few_samples_aborts:
  assumes "x = y"
    and "length pupil = nAct" and "nAct * length pokeSteps \<le> length imageStack"
    and "pupil_ac = Some pupil \<or> (pupil_ac = None \<and> pupil = replicate nAct 1)"
    and "k' < nAct" and "pupil ! k' = 1" and "retained_count lib imageStack x y pokeSteps k' < 2"
  shows "\<exists>k \<le> k'. pupil ! k = 1 \<and> retained_count lib imageStack x y pokeSteps k < 2
      \<and> create_control_matrix lib self imageStack x y nAct noZ pokeSteps pupil_ac threshold
          = (self, Inl (NotEnoughValues (int k + 1)))
      \<and> (\<exists>st. foldM (actuator_step lib imageStack x y noZ pokeSteps pupil) [0..<k]
                  (replicate noZ (replicate nAct 0), replicate noZ 0) = Inr st)"
proof -
  define bad where "bad i \<longleftrightarrow> pupil ! i = 1 \<and> retained_count lib imageStack x y pokeSteps i < 2" for i
  define k where "k = (LEAST i. bad i)"
  have "bad k'" using assms(6,7) by (simp add: bad_def)
  then have bk: "bad k" and le: "k \<le> k'" and first: "\<forall>i < k. \<not> bad i"
    unfolding k_def by (auto intro: LeastI Least_le dest: not_less_Least)
  have kn: "k < nAct" using le assms(5) by simp
  have pup: "(case pupil_ac of None \<Rightarrow> replicate nAct 1 | Some p \<Rightarrow> p) = pupil"
    using assms(4) by auto
  from bk first have
    "pupil ! k = 1" "retained_count lib imageStack x y pokeSteps k < 2"
    "\<forall>i < k. pupil ! i = 1 \<longrightarrow> 2 \<le> retained_count lib imageStack x y pokeSteps i"
    by (auto simp: bad_def not_less)
  from actuator_loop_first_failure [OF kn this assms(2,3), of noZ "(replicate noZ (replicate nAct 0), replicate noZ 0)"]
  have pre: "\<exists>st'. foldM (actuator_step lib imageStack x y noZ pokeSteps pupil) [0..<k]
                  (replicate noZ (replicate nAct 0), replicate noZ 0) = Inr st'"
    and fail: "foldM (actuator_step lib imageStack x y noZ pokeSteps pupil) [0..<nAct]
                  (replicate noZ (replicate nAct 0), replicate noZ 0) = Inl (NotEnoughValues (int k + 1))"
    by blast+
  have "create_control_matrix lib self imageStack x y nAct noZ pokeSteps pupil_ac threshold
          = (self, Inl (NotEnoughValues (int k + 1)))"
    using assms(1) fail by (simp add: create_control_matrix_def pup)
  with le bk pre show ?thesis
    unfolding bad_def by blast
qed

theorem C3_too_few_samples_aborts_witness:
  "(10::nat) = 10 \<and> length [1, 1 :: real] = 2 \<and> 2 * length [1 / 4, 3 / 4 :: real] \<le> length [0, 0, 0, 5 :: nat]
   \<and> (1::nat) < 2 \<and> [1, 1 :: real] ! 1 = 1
   \<and> retained_count example_numerics [0, 0, 0, 5] 10 10 [1 / 4, 3 / 4] 1 < 2
   \<and> create_control_matrix example_numerics example_alg [0, 0, 0, 5] 10 10 2 1 [1 / 4, 3 / 4] None (5 / 1000)
       = (example_alg, Inl (NotEnoughValues 2))"
proof -
  have c0: "retained_count example_numerics [0, 0, 0, 5] 10 10 [1 / 4, 3 / 4] 0 = 2"
    by (simp add: retained_count_def retained_def example_numerics_def upt_small)
  have c1: "retained_count example_numerics [0, 0, 0, 5] 10 10 [1 / 4, 3 / 4] 1 < 2"
    by (simp add: retained_count_def retained_def example_numerics_def upt_small)
  have h: "(10::nat) = 10" "length [1, 1 :: real] = 2"
    "2 * length [1 / 4, 3 / 4 :: real] \<le> length [0, 0, 0, 5 :: nat]"
    "None = Some [1, 1 :: real] \<or> ((None :: real list option) = None \<and> [1, 1 :: real] = replicate 2 1)"
    "(1::nat) < 2" "[1, 1 :: real] ! 1 = 1"
    by (simp_all add: numeral_2_eq_2)
  have "\<exists>k \<le> 1. [1, 1 :: real] ! k = 1
      \<and> retained_count example_numerics [0, 0, 0, 5] 10 10 [1 / 4, 3 / 4] k < 2
      \<and> create_control_matrix example_numerics example_alg [0, 0, 0, 5] 10 10 2 1 [1 / 4, 3 / 4] None (5 / 1000)
          = (example_alg, Inl (NotEnoughValues (int k + 1)))
      \<and> (\<exists>st. foldM (actuator_step example_numerics [0, 0, 0, 5] 10 10 1 [1 / 4, 3 / 4] [1, 1]) [0..<k]
                  (replicate 1 (replicate 2 0), replicate 1 0) = Inr st)"
    by (rule C3_too_few_samples_aborts [OF h c1])
  then obtain k where k: "k \<le> 1"
    "retained_count example_numerics [0, 0, 0, 5] 10 10 [1 / 4, 3 / 4] k < 2"
    "create_control_matrix example_numerics example_alg [0, 0, 0, 5] 10 10 2 1 [1 / 4, 3 / 4] None (5 / 1000)
          = (example_alg, Inl (NotEnoughValues (int k + 1)))"
    by blast
  have "k = 1"
  proof (rule ccontr)
    assume "k \<noteq> 1"
    with k(1) have "k = 0" by simp
    with k(2) c0 show False by simp
  qed
  with k(3) c1 h show ?thesis by simp
qed

subsection \<open>Sensorless estimator\<close>

lemma sensorless_step_frame:
  assumes "sensorless_step py find_amp stack applied noll numMes ii c = Inr c'"
    and "length c = ncols applied"
  shows "\<exists>k amp. py_index (ncols applied) (noll ! ii - 1) = Inr k \<and> c' = c[k := amp]"
  using assms
  by (auto simp: sensorless_step_def Let_def split: pyver.splits sum.splits)

lemma sensorless_loop_frame:
  assumes "foldM (sensorless_step py find_amp stack applied noll numMes) xs c = Inr c'"
    and "length c = ncols applied"
  shows "length c' = ncols applied
     \<and> (\<forall>j < ncols applied. (\<forall>i \<in> set xs. py_index (ncols applied) (noll ! i - 1) \<noteq> Inr j) \<longrightarrow> c' ! j = c ! j)"
  using assms
proof (induction xs arbitrary: c)
  case Nil
  then show ?case by simp
next
  case (Cons x xs)
  from Cons.prems(1) obtain c1 where
    s1: "sensorless_step py find_amp stack applied noll numMes x c = Inr c1"
    and rest: "foldM (sensorless_step py find_amp stack applied noll numMes) xs c1 = Inr c'"
    by (auto split: sum.splits)
  from sensorless_step_frame [OF s1 Cons.prems(2)] obtain k amp where
    k: "py_index (ncols applied) (noll ! x - 1) = Inr k" and c1: "c1 = c[k := amp]"
    by blast
  have len1: "length c1 = ncols applied" using c1 Cons.prems(2) by simp
  from Cons.IH [OF rest len1] have
    L: "length c' = ncols applied"
    and F: "\<forall>j < ncols applied. (\<forall>i \<in> set xs. py_index (ncols applied) (noll ! i - 1) \<noteq> Inr j) \<longrightarrow> c' ! j = c1 ! j"
    by blast+
  show ?case
  proof (intro conjI allI impI)
    show "length c' = ncols applied" by (rule L)
  next
    fix j assume j: "j < ncols applied"
      and no: "\<forall>i \<in> set (x # xs). py_index (ncols applied) (noll ! i - 1) \<noteq> Inr j"
    then have "c' ! j = c1 ! j" using F by simp
    moreover have "k \<noteq> j" using no k by auto
    ultimately show "c' ! j = c ! j" using c1 by simp
  qed
qed

text \<open>
  C9. A vector that \<open>get_zernike_modes_sensorless\<close> returns has the length of the mode
  dimension of the table of applied amplitudes, and is zero at every index that is not
  the index \<open>nollZernike[i] - 1\<close> of a selected mode (read as Python reads an index, a
  negative one counting from the end): the loop writes those entries only.
\<close>

theorem C9_sensorless_writes_selected_only:
  assumes "get_zernike_modes_sensorless py find_amp full_image_stack full_zernike_applied nollZernike = Inr coef"
  shows "length coef = ncols full_zernike_applied
     \<and> (\<forall>j < ncols full_zernike_applied.
           (\<forall>i < length nollZernike. py_index (ncols full_zernike_applied) (nollZernike ! i - 1) \<noteq> Inr j)
           \<longrightarrow> coef ! j = 0)"
proof -
  let ?M = "ncols full_zernike_applied"
  let ?numMes = "int (length (rows full_zernike_applied)) div int (length nollZernike)"
  from assms have run:
    "foldM (sensorless_step py find_amp full_image_stack full_zernike_applied nollZernike ?numMes)
       [0..<length nollZernike] (replicate ?M 0) = Inr coef"
    by (simp add: get_zernike_modes_sensorless_def Let_def split: if_splits)
  have len0: "length (replicate ?M (0::real)) = ?M" by simp
  from sensorless_loop_frame [OF run len0] show ?thesis
    by simp
qed

theorem C9_sensorless_writes_selected_only_witness:
  "get_zernike_modes_sensorless Py2 (\<lambda>imgs zs. Inr 7) [(), ()]
      \<lparr>ncols = 3, rows = [[1, 2, 3], [4, 5, 6]]\<rparr> [2] = Inr [0, 7, 0]
   \<and> length [0, 7, 0 :: real] = 3 \<and> [0, 7, 0 :: real] ! 0 = 0 \<and> [0, 7, 0 :: real] ! 2 = 0"
proof -
  have run: "get_zernike_modes_sensorless Py2 (\<lambda>imgs zs. Inr 7) [(), ()]
      \<lparr>ncols = 3, rows = [[1, 2, 3], [4, 5, 6]]\<rparr> [2] = Inr [0, 7, 0]"
    by (simp add: get_zernike_modes_sensorless_def sensorless_step_def py_index_def py_slice_def
        slice_bounds_def Let_def numeral_3_eq_3)
  from C9_sensorless_writes_selected_only [OF run]
  have len: "length [0, 7, 0 :: real] = 3"
    and frame: "\<forall>j < 3. (\<forall>i < length [2 :: int]. py_index 3 ([2] ! i - 1) \<noteq> Inr j) \<longrightarrow> [0, 7, 0 :: real] ! j = 0"
    by simp_all
  have "[0, 7, 0 :: real] ! 0 = 0"
    by (rule frame [rule_format]) (simp_all add: py_index_def)
  moreover have "[0, 7, 0 :: real] ! 2 = 0"
    by (rule frame [rule_format]) (simp_all add: py_index_def)
  ultimately show ?thesis using run len by blast
qed

subsection \<open>Region of interest\<close>

text \<open>
  C6 (as amended). After \<open>set_roi\<close> with a radius, the region of interest is recorded, the
  mask held by the device is the mask \<open>make_mask\<close> makes for that radius, and the Fourier
  filter of the device is unset; the control matrix, of the device and of the algorithm
  object, is left as it was.
\<close>

theorem C6_set_roi_resets_mask_and_filter:
  "roi (set_roi self y0 x0 radius) = Some (y0, x0, radius)
   \<and> dev_mask (set_roi self y0 x0 radius) = Some (snd (make_mask (aoAlg self) radius))
   \<and> dev_fft_filter (set_roi self y0 x0 radius) = None
   \<and> dev_controlMatrix (set_roi self y0 x0 radius) = dev_controlMatrix self
   \<and> controlMatrix (aoAlg (set_roi self y0 x0 radius)) = controlMatrix (aoAlg self)"
  by (simp add: set_roi_def make_mask_def Let_def)

text \<open>
  C6 as claimed fails for the control matrix: on a device that holds one, \<open>set_roi\<close>
  leaves it in the device and in the algorithm object.
\<close>

theorem C6_control_matrix_survives_set_roi:
  "dev_controlMatrix (set_roi example_device 5 5 1) = Some \<lparr>ncols = 1, rows = [[1]]\<rparr>
   \<and> controlMatrix (aoAlg (set_roi example_device 5 5 1)) = Some \<lparr>ncols = 1, rows = [[1]]\<rparr>"
  by (simp add: set_roi_def make_mask_def Let_def example_device_def example_alg_def)

lemma set_roi_keeps_filter_of_algorithm_object:
  "fft_filter (aoAlg (set_roi self y0 x0 radius)) = fft_filter (aoAlg self)"
  by (simp add: set_roi_def make_mask_def Let_def)

subsection \<open>Closed loop\<close>

lemma send_result:
  "send self vals = (self', c) \<Longrightarrow> unit_range c \<and> length c = length vals"
  by (auto simp: send_def Let_def unit_range_def)

lemma send_unit_range:
  assumes "unit_range vals"
  shows "send self vals = (self\<lparr>mirror := mirror self @ [vals]\<rparr>, vals)"
proof -
  have "map (\<lambda>v. if v < 0 then 0 else v) (map (\<lambda>v. if v > 1 then 1 else v) vals) = vals"
    using assms by (induction vals) (auto simp: unit_range_def)
  then show ?thesis by (simp add: send_def Let_def)
qed

lemma set_phase_result:
  assumes "set_phase self z (Some off) = (self', Inr flat)"
  shows "unit_range flat \<and> (length off = length flat \<or> length off = 1)"
proof -
  from assms obtain pos moved where
    "np_iadd (map (\<lambda>v. - 1.0 * v) pos) off = Inr moved" and s: "send self moved = (self', flat)"
    by (auto simp: set_phase_def Let_def split: sum.splits prod.splits)
  then have "length off = length moved \<or> length off = 1"
    by (auto simp: np_iadd_def split: if_splits)
  with send_result [OF s] show ?thesis by simp
qed

lemma np_assign_same:
  assumes "np_assign a b = Inr c" and "length a = length b \<or> length a = 1"
  shows "c = b"
proof (cases "length b = length a")
  case True
  with assms(1) show ?thesis by (simp add: np_assign_def)
next
  case False
  with assms have l: "length b = 1" "length a = 1"
    by (auto simp: np_assign_def split: if_splits)
  with False show ?thesis by simp
qed

lemma flatten_step_cases:
  assumes "flatten_step cam z_modes_ignore ii st = Inr st'"
  shows "\<exists>z_amps flat.
           (case z_modes_ignore of None \<Rightarrow> Inr (fst (cam ii)) | Some ign \<Rightarrow> np_mul (fst (cam ii)) ign)
              = Inr z_amps
         \<and> set_phase (dev st) z_amps (Some (best_flat_actuators st)) = (dev st', Inr flat)
         \<and> (snd (cam ii) < best_rms_error st \<longrightarrow>
               best_flat_actuators st' = flat \<and> best_rms_error st' = snd (cam ii))
         \<and> (snd (cam ii) = best_rms_error st \<longrightarrow>
               best_flat_actuators st' = flat \<and> best_rms_error st' = best_rms_error st)
         \<and> (snd (cam ii) > best_rms_error st \<longrightarrow>
               best_flat_actuators st' = best_flat_actuators st \<and> best_rms_error st' = best_rms_error st)"
proof -
  from assms obtain z_amps self' flat where
    z: "(case z_modes_ignore of None \<Rightarrow> Inr (fst (cam ii)) | Some ign \<Rightarrow> np_mul (fst (cam ii)) ign)
          = Inr z_amps"
    and p: "set_phase (dev st) z_amps (Some (best_flat_actuators st)) = (self', Inr flat)"
    and r: "(if snd (cam ii) < best_rms_error st then
               Inr (st\<lparr>dev := self', best_z_amps := z_amps,
                        best_flat_actuators := flat, best_rms_error := snd (cam ii)\<rparr>)
             else if snd (cam ii) > best_rms_error st then Inr (st\<lparr>dev := self'\<rparr>)
             else (case np_assign (best_flat_actuators st) flat of
                     Inl e \<Rightarrow> Inl e
                   | Inr b \<Rightarrow> Inr (st\<lparr>dev := self', best_flat_actuators := b\<rparr>))) = Inr st'"
    unfolding flatten_step_def Let_def
    by (auto split: sum.splits prod.splits)
  from set_phase_result [OF p] have len: "length (best_flat_actuators st) = length flat
      \<or> length (best_flat_actuators st) = 1" by simp
  have d: "dev st' = self'"
    using r by (auto split: if_splits sum.splits)
  have lt: "best_flat_actuators st' = flat \<and> best_rms_error st' = snd (cam ii)"
    if "snd (cam ii) < best_rms_error st"
    using r that by auto
  have gt: "best_flat_actuators st' = best_flat_actuators st \<and> best_rms_error st' = best_rms_error st"
    if "snd (cam ii) > best_rms_error st"
    using r that by auto
  have eq: "best_flat_actuators st' = flat \<and> best_rms_error st' = best_rms_error st"
    if "snd (cam ii) = best_rms_error st"
  proof -
    from r that obtain b where b: "np_assign (best_flat_actuators st) flat = Inr b"
      and st': "st' = st\<lparr>dev := self', best_flat_actuators := b\<rparr>"
      by (auto split: sum.splits)
    from np_assign_same [OF b len] st' show ?thesis by simp
  qed
  show ?thesis
    using z p d lt gt eq by blast
qed

lemma flatten_step_unit_range:
  assumes "unit_range (best_flat_actuators st)" and "flatten_step cam z_modes_ignore ii st = Inr st'"
  shows "unit_range (best_flat_actuators st')"
proof -
  from flatten_step_cases [OF assms(2)] obtain z_amps flat where
    p: "set_phase (dev st) z_amps (Some (best_flat_actuators st)) = (dev st', Inr flat)"
    and c: "snd (cam ii) < best_rms_error st \<longrightarrow> best_flat_actuators st' = flat"
      "snd (cam ii) = best_rms_error st \<longrightarrow> best_flat_actuators st' = flat"
      "snd (cam ii) > best_rms_error st \<longrightarrow> best_flat_actuators st' = best_flat_actuators st"
    by blast
  from set_phase_result [OF p] have "unit_range flat" by simp
  with c assms(1) show ?thesis
    by (cases "snd (cam ii) < best_rms_error st"; cases "snd (cam ii) = best_rms_error st") auto
qed

lemma flatten_loop_unit_range:
  assumes "flatten_loop cam rms0 z_modes_ignore iterations self nAct nzernike = Inr st"
  shows "unit_range (best_flat_actuators st)"
proof -
  have half: "unit_range (replicate nAct (1 / 2))" by (simp add: unit_range_def)
  from assms have
    "foldM (flatten_step cam z_modes_ignore) [0..<nat iterations]
       \<lparr>dev = self\<lparr>mirror := mirror self @ [replicate nAct (1 / 2)]\<rparr>,
        best_flat_actuators = replicate nAct (1 / 2), best_z_amps = replicate nzernike 0,
        best_rms_error = rms0\<rparr> = Inr st"
    by (simp add: flatten_loop_def send_unit_range [OF half])
  then show ?thesis
    by (rule foldM_invariant [where P = "\<lambda>s. unit_range (best_flat_actuators s)"])
      (simp_all add: half flatten_step_unit_range)
qed

lemma flatten_phase_final:
  assumes "flatten_phase py cam rms0 test_image self iterations z_modes_ignore = Inr (self', v)"
  shows "\<exists>self1 nAct nzernike st.
           flatten_loop cam rms0 z_modes_ignore iterations self1 nAct nzernike = Inr st
         \<and> v = best_flat_actuators st \<and> mirror self' = mirror (dev st) @ [v]"
proof -
  from assms obtain self1 nAct nzernike st where
    l: "flatten_loop cam rms0 z_modes_ignore iterations self1 nAct nzernike = Inr st"
    and s: "send (dev st) (best_flat_actuators st) = (self', v)"
    unfolding flatten_phase_def
    by (auto split: if_splits sum.splits option.splits prod.splits)
  from send_unit_range [OF flatten_loop_unit_range [OF l]] s
  have "v = best_flat_actuators st" "mirror self' = mirror (dev st) @ [v]"
    by auto
  with l show ?thesis by blast
qed

lemma flatten_step_example:
  "flatten_step (\<lambda>ii. ([1 / 4], 1)) (Some [1]) 0
      \<lparr>dev = example_device\<lparr>mirror := [[1 / 2]]\<rparr>, best_flat_actuators = [1 / 2],
       best_z_amps = [0], best_rms_error = 1\<rparr>
   = Inr \<lparr>dev = example_device\<lparr>mirror := [[1 / 2], [1 / 4]]\<rparr>, best_flat_actuators = [1 / 4],
          best_z_amps = [0], best_rms_error = 1\<rparr>"
  by (simp add: flatten_step_def np_mul_def set_phase_def ac_pos_from_zernike_def np_dot_def
      np_iadd_def send_def np_assign_def Let_def example_device_def example_alg_def)

lemma flatten_phase_example:
  "flatten_phase Py3 (\<lambda>ii. ([1 / 4], 1)) 1 (0, 0, 0, \<lambda>p. None) example_device 1 (Some [1])
    = Inr (example_device\<lparr>mirror := [[1 / 2], [1 / 4], [1 / 4]]\<rparr>, [1 / 4])"
  apply (simp add: flatten_phase_def flatten_loop_def example_device_def)
  apply (simp add: send_def Let_def)
  using flatten_step_example apply (simp add: example_device_def send_def Let_def)
  done

text \<open>
  C2 (as amended). In an iteration of \<open>flatten_phase\<close> that ends without an exception,
  the retained best actuator vector is overwritten with the vector just set when the new
  RMS is smaller than or equal to the best RMS so far, and is left as it is when the new
  RMS is larger; the best RMS is overwritten only when the new RMS is smaller. When the
  method returns, the vector it returns is the retained best vector after the
  \<open>iterations\<close> steps of the loop, and it is the last pattern sent to the mirror.
\<close>

theorem C2_best_overwritten_unless_worse:
  "(flatten_step cam z_modes_ignore ii st = Inr st' \<longrightarrow>
      (\<exists>z_amps flat.
           (case z_modes_ignore of None \<Rightarrow> Inr (fst (cam ii)) | Some ign \<Rightarrow> np_mul (fst (cam ii)) ign)
              = Inr z_amps
         \<and> set_phase (dev st) z_amps (Some (best_flat_actuators st)) = (dev st', Inr flat)
         \<and> (snd (cam ii) < best_rms_error st \<longrightarrow>
               best_flat_actuators st' = flat \<and> best_rms_error st' = snd (cam ii))
         \<and> (snd (cam ii) = best_rms_error st \<longrightarrow>
               best_flat_actuators st' = flat \<and> best_rms_error st' = best_rms_error st)
         \<and> (snd (cam ii) > best_rms_error st \<longrightarrow>
               best_flat_actuators st' = best_flat_actuators st \<and> best_rms_error st' = best_rms_error st)))
   \<and> (flatten_phase py cam rms0 test_image self iterations z_modes_ignore = Inr (self', v) \<longrightarrow>
        (\<exists>self1 nAct nzernike final.
            flatten_loop cam rms0 z_modes_ignore iterations self1 nAct nzernike = Inr final
          \<and> v = best_flat_actuators final \<and> mirror self' = mirror (dev final) @ [v]))"
  using flatten_step_cases [of cam z_modes_ignore ii st st']
    flatten_phase_final [of py cam rms0 test_image self iterations z_modes_ignore self' v]
  by blast

theorem C2_best_overwritten_unless_worse_witness:
  "flatten_step (\<lambda>ii. ([1 / 4], 1)) (Some [1]) 0
      \<lparr>dev = example_device\<lparr>mirror := [[1 / 2]]\<rparr>, best_flat_actuators = [1 / 2],
       best_z_amps = [0], best_rms_error = 1\<rparr>
   = Inr \<lparr>dev = example_device\<lparr>mirror := [[1 / 2], [1 / 4]]\<rparr>, best_flat_actuators = [1 / 4],
          best_z_amps = [0], best_rms_error = 1\<rparr>
   \<and> flatten_phase Py3 (\<lambda>ii. ([1 / 4], 1)) 1 (0, 0, 0, \<lambda>p. None) example_device 1 (Some [1])
    = Inr (example_device\<lparr>mirror := [[1 / 2], [1 / 4], [1 / 4]]\<rparr>, [1 / 4])
   \<and> set_phase (example_device\<lparr>mirror := [[1 / 2]]\<rparr>) [1 / 4] (Some [1 / 2])
    = (example_device\<lparr>mirror := [[1 / 2], [1 / 4]]\<rparr>, Inr [1 / 4])
   \<and> last (mirror (example_device\<lparr>mirror := [[1 / 2], [1 / 4], [1 / 4]]\<rparr>)) = [1 / 4]"
proof -
  let ?cam = "\<lambda>ii::nat. ([1 / 4 :: real], 1 :: real)"
  let ?st0 = "\<lparr>dev = example_device\<lparr>mirror := [[1 / 2]]\<rparr>, best_flat_actuators = [1 / 2],
       best_z_amps = [0], best_rms_error = 1\<rparr>"
  let ?st1 = "\<lparr>dev = example_device\<lparr>mirror := [[1 / 2], [1 / 4]]\<rparr>, best_flat_actuators = [1 / 4],
          best_z_amps = [0], best_rms_error = 1\<rparr>"
  let ?d1 = "example_device\<lparr>mirror := [[1 / 2], [1 / 4], [1 / 4]]\<rparr>"
  note both = C2_best_overwritten_unless_worse [of ?cam "Some [1]" 0 ?st0 ?st1
      Py3 1 "(0, 0, 0, \<lambda>p. None)" example_device 1 ?d1 "[1 / 4]"]
  note step = both [THEN conjunct1, THEN mp, OF flatten_step_example]
  note final = both [THEN conjunct2, THEN mp, OF flatten_phase_example]
  from step obtain z_amps flat where
    z: "np_mul [1 / 4] [1] = Inr z_amps"
    and p: "set_phase (example_device\<lparr>mirror := [[1 / 2]]\<rparr>) z_amps (Some [1 / 2])
              = (example_device\<lparr>mirror := [[1 / 2], [1 / 4]]\<rparr>, Inr flat)"
    and e: "[1 / 4] = flat"
    by auto
  from z have "z_amps = [1 / 4]" by (simp add: np_mul_def)
  with p e have sp: "set_phase (example_device\<lparr>mirror := [[1 / 2]]\<rparr>) [1 / 4] (Some [1 / 2])
    = (example_device\<lparr>mirror := [[1 / 2], [1 / 4]]\<rparr>, Inr [1 / 4])"
    by simp
  from final obtain st :: flat_state where "mirror ?d1 = mirror (dev st) @ [[1 / 4]]"
    by blast
  then have "last (mirror ?d1) = [1 / 4]" by simp
  with sp flatten_step_example flatten_phase_example show ?thesis by blast
qed

text \<open>
  C2 as claimed fails when an iteration measures the RMS it started from. With one
  actuator, the control matrix \<open>[[1]]\<close>, a first RMS of 1 and an iteration that measures the
  amplitude 1/4 and the RMS 1 again, the retained best vector \<open>[1/2]\<close> is overwritten with
  \<open>[1/4]\<close>, and \<open>[1/4]\<close> is the final correction.
\<close>

theorem C2_equal_rms_overwrites_best:
  "flatten_step (\<lambda>ii. ([1 / 4], 1)) (Some [1]) 0
      \<lparr>dev = example_device\<lparr>mirror := [[1 / 2]]\<rparr>, best_flat_actuators = [1 / 2],
       best_z_amps = [0], best_rms_error = 1\<rparr>
   = Inr \<lparr>dev = example_device\<lparr>mirror := [[1 / 2], [1 / 4]]\<rparr>, best_flat_actuators = [1 / 4],
          best_z_amps = [0], best_rms_error = 1\<rparr>
   \<and> [1 / 4] \<noteq> [1 / 2 :: real]
   \<and> flatten_phase Py3 (\<lambda>ii. ([1 / 4], 1)) 1 (0, 0, 0, \<lambda>p. None) example_device 1 (Some [1])
    = Inr (example_device\<lparr>mirror := [[1 / 2], [1 / 4], [1 / 4]]\<rparr>, [1 / 4])"
  using flatten_step_example flatten_phase_example by simp

end
